theory Spec2Isabelle
  imports Complex_Main "HOL-Library.Word" "HOL-Library.Char_ord" "HOL-Library.List_Lexorder"
begin

section \<open>Exceptions\<close>

text \<open>
  Every failure in the sources is a C++ exception derived from \<open>std::exception\<close>; the
  only thing the code ever reads from one is \<open>what()\<close>. The constructors name the
  classes that occur: \<open>std::runtime_error\<close> (thrown by the repository itself),
  \<open>std::invalid_argument\<close> and \<open>std::out_of_range\<close> (thrown by \<open>std::stoi\<close>), and the
  exceptions of the JSON library.
\<close>

datatype exn =
    runtime_error string
  | invalid_argument string
  | out_of_range string
  | json_exception string

fun what :: "exn \<Rightarrow> string" where
  "what (runtime_error m) = m"
| "what (invalid_argument m) = m"
| "what (out_of_range m) = m"
| "what (json_exception m) = m"

section \<open>JSON values\<close>

text \<open>
  \<open>json::value_t\<close>, with the ten enumerators that \<open>value_t_to_string\<close> (schema.cpp)
  switches over.
\<close>

datatype value_t =
    null | object | array | string | boolean
  | number_integer | number_unsigned | number_float | binary | discarded

text \<open>
  A \<open>json\<close> value. An object is the library's \<open>std::map\<close> from key to value: an
  association list that the operations below keep ordered by key, without duplicates.
  Signed and unsigned integers are the library's 64-bit types (a signed one is read
  with \<open>sint\<close>). No function of the
  repository computes with a floating-point payload; it is carried as a real number.
\<close>

datatype json =
    JNull
  | JObject "(string \<times> json) list"
  | JArray "json list"
  | JString string
  | JBool bool
  | JInt "64 word"
  | JUInt "64 word"
  | JFloat real
  | JBinary "8 word list"
  | JDiscarded

fun type :: "json \<Rightarrow> value_t" where
  "type JNull = null"
| "type (JObject kvs) = object"
| "type (JArray xs) = array"
| "type (JString s) = string"
| "type (JBool b) = boolean"
| "type (JInt i) = number_integer"
| "type (JUInt u) = number_unsigned"
| "type (JFloat f) = number_float"
| "type (JBinary bs) = binary"
| "type JDiscarded = discarded"

definition is_object :: "json \<Rightarrow> bool" where
  "is_object j = (type j = object)"

text \<open>\<open>json::type_name()\<close>: the name used in the library's exception texts.\<close>

fun type_name :: "json \<Rightarrow> string" where
  "type_name JNull = ''null''"
| "type_name (JObject kvs) = ''object''"
| "type_name (JArray xs) = ''array''"
| "type_name (JString s) = ''string''"
| "type_name (JBool b) = ''boolean''"
| "type_name (JBinary bs) = ''binary''"
| "type_name JDiscarded = ''discarded''"
| "type_name j = ''number''"

text \<open>
  \<open>find\<close> on an object, and insertion or assignment at a key, keeping the keys in
  \<open>std::map\<close> order (\<open>std::less<std::string>\<close>, bytewise lexicographic).
\<close>

fun obj_find :: "string \<Rightarrow> (string \<times> json) list \<Rightarrow> json option" where
  "obj_find k [] = None"
| "obj_find k ((k', v) # kvs) = (if k = k' then Some v else obj_find k kvs)"

fun obj_set :: "string \<Rightarrow> json \<Rightarrow> (string \<times> json) list \<Rightarrow> (string \<times> json) list" where
  "obj_set k v [] = [(k, v)]"
| "obj_set k v ((k', v') # kvs) =
     (if k = k' then (k, v) # kvs
      else if k < k' then (k, v) # (k', v') # kvs
      else (k', v') # obj_set k v kvs)"

text \<open>\<open>j.contains(key)\<close>: false on anything that is not an object.\<close>

fun contains :: "json \<Rightarrow> string \<Rightarrow> bool" where
  "contains (JObject kvs) key = (obj_find key kvs \<noteq> None)"
| "contains j key = False"

text \<open>
  \<open>j.at(key)\<close>: the member, \<open>out_of_range.403\<close> when the key is missing,
  \<open>type_error.304\<close> when \<open>j\<close> is not an object.
\<close>

fun at_key :: "json \<Rightarrow> string \<Rightarrow> exn + json" where
  "at_key (JObject kvs) key =
     (case obj_find key kvs of
        Some v \<Rightarrow> Inr v
      | None \<Rightarrow> Inl (json_exception (''[json.exception.out_of_range.403] key '' @ [CHR 0x27] @ key
                                     @ [CHR 0x27] @ '' not found'')))"
| "at_key j key = Inl (json_exception (''[json.exception.type_error.304] cannot use at() with ''
                                   @ type_name j))"

text \<open>
  \<open>j[key] = v\<close>: a null value silently becomes an object first; on any other
  non-object the library throws \<open>type_error.305\<close>.
\<close>

fun set_key :: "json \<Rightarrow> string \<Rightarrow> json \<Rightarrow> exn + json" where
  "set_key JNull key v = Inr (JObject [(key, v)])"
| "set_key (JObject kvs) key v = Inr (JObject (obj_set key v kvs))"
| "set_key j key v =
     Inl (json_exception (''[json.exception.type_error.305] cannot use operator[] with a string argument with ''
                          @ type_name j))"

text \<open>
  \<open>j.value(key, default)\<close> at result type \<open>bool\<close> and at result type \<open>std::string\<close>:
  the default when the key is missing, \<open>type_error.302\<close> when the member has another
  type, \<open>type_error.306\<close> when \<open>j\<close> is not an object.
\<close>

fun value_bool :: "json \<Rightarrow> string \<Rightarrow> bool \<Rightarrow> exn + bool" where
  "value_bool (JObject kvs) key d =
     (case obj_find key kvs of
        None \<Rightarrow> Inr d
      | Some (JBool b) \<Rightarrow> Inr b
      | Some v \<Rightarrow> Inl (json_exception (''[json.exception.type_error.302] type must be boolean, but is ''
                                       @ type_name v)))"
| "value_bool j key d =
     Inl (json_exception (''[json.exception.type_error.306] cannot use value() with '' @ type_name j))"

fun value_string :: "json \<Rightarrow> string \<Rightarrow> string \<Rightarrow> exn + string" where
  "value_string (JObject kvs) key d =
     (case obj_find key kvs of
        None \<Rightarrow> Inr d
      | Some (JString s) \<Rightarrow> Inr s
      | Some v \<Rightarrow> Inl (json_exception (''[json.exception.type_error.302] type must be string, but is ''
                                       @ type_name v)))"
| "value_string j key d =
     Inl (json_exception (''[json.exception.type_error.306] cannot use value() with '' @ type_name j))"

section \<open>Schema validation (schema.hpp, schema.cpp)\<close>

text \<open>
  \<open>ParamSchema\<close> is a variant of a single type, a vector of allowed types, or a nested
  \<open>ParamSchemaMap\<close>. A \<open>ParamSchemaMap\<close> is a \<open>std::unordered_map\<close>; the list gives its
  entries in the order in which the range-for loop of \<open>assert_parameters_impl\<close> visits
  them, which the language leaves open. The keys of an \<open>unordered_map\<close> are unique at
  every level (\<open>wf_schema\<close>).
\<close>

datatype ParamSchema =
    Single value_t
  | Multi "value_t list"
  | Nested "(string \<times> ParamSchema) list"

type_synonym ParamSchemaMap = "(string \<times> ParamSchema) list"


fun value_t_to_string :: "value_t \<Rightarrow> string" where
  "value_t_to_string null = ''null''"
| "value_t_to_string object = ''object''"
| "value_t_to_string array = ''array''"
| "value_t_to_string string = ''string''"
| "value_t_to_string boolean = ''boolean''"
| "value_t_to_string number_integer = ''number_integer''"
| "value_t_to_string number_unsigned = ''number_unsigned''"
| "value_t_to_string number_float = ''number_float''"
| "value_t_to_string binary = ''binary''"
| "value_t_to_string discarded = ''discarded''"

text \<open>The loop that builds \<open>expected_list\<close>: the names joined by a comma and a space.\<close>

fun expected_list :: "value_t list \<Rightarrow> string" where
  "expected_list [] = []"
| "expected_list [t] = value_t_to_string t"
| "expected_list (t # ts) = value_t_to_string t @ '', '' @ expected_list ts"

definition full_path :: "string \<Rightarrow> string \<Rightarrow> string" where
  "full_path path key = (if path = [] then key else path @ ''.'' @ key)"

text \<open>
  \<open>assert_parameters_impl\<close>: one equation per schema alternative. \<open>Inr ()\<close> is a normal
  return, \<open>Inl e\<close> the exception thrown at the first violation. \<open>obj.at(key)\<close> is only
  reached when \<open>obj.contains(key)\<close> holds, so the two are one lookup here.
\<close>

fun assert_parameters_impl :: "json \<Rightarrow> ParamSchemaMap \<Rightarrow> string \<Rightarrow> exn + unit" where
  "assert_parameters_impl obj [] path = Inr ()"
| "assert_parameters_impl obj ((key, Single expected_type) # rest) path =
     (if \<not> contains obj key
      then Inl (runtime_error (''Missing key: '' @ full_path path key))
      else case at_key obj key of
        Inl e \<Rightarrow> Inl e
      | Inr json_val \<Rightarrow>
          if type json_val \<noteq> expected_type
          then Inl (runtime_error (''Wrong type for key '' @ [CHR 0x27] @ full_path path key
                 @ [CHR 0x27] @ '' (expected '' @ value_t_to_string expected_type @ '', got ''
                 @ value_t_to_string (type json_val) @ '')''))
          else assert_parameters_impl obj rest path)"
| "assert_parameters_impl obj ((key, Multi expected_types) # rest) path =
     (if \<not> contains obj key
      then Inl (runtime_error (''Missing key: '' @ full_path path key))
      else case at_key obj key of
        Inl e \<Rightarrow> Inl e
      | Inr json_val \<Rightarrow>
          if \<not> List.member expected_types (type json_val)
          then Inl (runtime_error (''Wrong type for key '' @ [CHR 0x27] @ full_path path key
                 @ [CHR 0x27] @ '' (expected one of ['' @ expected_list expected_types @ ''], got ''
                 @ value_t_to_string (type json_val) @ '')''))
          else assert_parameters_impl obj rest path)"
| "assert_parameters_impl obj ((key, Nested nested) # rest) path =
     (if \<not> contains obj key
      then Inl (runtime_error (''Missing key: '' @ full_path path key))
      else case at_key obj key of
        Inl e \<Rightarrow> Inl e
      | Inr json_val \<Rightarrow>
          if \<not> is_object json_val
          then Inl (runtime_error (''Expected object at key: '' @ full_path path key))
          else (case assert_parameters_impl json_val nested (full_path path key) of
                  Inl e \<Rightarrow> Inl e
                | Inr u \<Rightarrow> assert_parameters_impl obj rest path))"

definition assert_parameters :: "json \<Rightarrow> ParamSchemaMap \<Rightarrow> exn + unit" where
  "assert_parameters obj schema =
     (if \<not> is_object obj
      then Inl (runtime_error ''Top-level JSON must be an object.'')
      else assert_parameters_impl obj schema [])"

text \<open>
  The schemas of the documentation: \<open>types({number_integer, number_float})\<close> under
  \<open>"n"\<close> (schema.hpp), and the nested \<open>{"meta", {{"retries", number_integer}}}\<close>
  (docs/cpp.md).
\<close>

definition n_schema :: ParamSchemaMap where
  "n_schema = [(''n'', Multi [number_integer, number_float])]"

definition meta_schema :: ParamSchemaMap where
  "meta_schema = [(''meta'', Nested [(''retries'', Single number_integer)])]"



section \<open>Server (server.hpp, server.cpp)\<close>

text \<open>
  A handler is a \<open>std::function<json(const json &)>\<close> and may throw. The registry
  \<open>handlers_\<close> is only ever assigned at a key (\<open>add_handler\<close>) and searched (\<open>find\<close>).
\<close>

type_synonym Handler = "json \<Rightarrow> exn + json"

type_synonym handlers = "(string \<times> Handler) list"

fun add_handler :: "string \<Rightarrow> Handler \<Rightarrow> handlers \<Rightarrow> handlers" where
  "add_handler command handler [] = [(command, handler)]"
| "add_handler command handler ((c, h) # hs) =
     (if command = c then (command, handler) # hs else (c, h) # add_handler command handler hs)"

definition okay :: "json \<Rightarrow> exn + json" where
  "okay result = set_key result ''_success'' (JBool True)"

definition error :: "json \<Rightarrow> string \<Rightarrow> exn + json" where
  "error result message =
     (case set_key result ''_success'' (JBool False) of
        Inl e \<Rightarrow> Inl e
      | Inr res \<Rightarrow> set_key res ''_msg'' (JString message))"

text \<open>
  The two \<open>response.value(...)\<close> calls that feed the log lines after routing. What is
  printed is not modelled; that either call may throw is.
\<close>

definition log_outcome :: "json \<Rightarrow> exn + json" where
  "log_outcome response =
     (case value_bool response ''_success'' False of
        Inl e \<Rightarrow> Inl e
      | Inr True \<Rightarrow> Inr response
      | Inr False \<Rightarrow>
          (case value_string response ''_msg'' ''No error message'' of
             Inl e \<Rightarrow> Inl e
           | Inr m \<Rightarrow> Inr response))"

text \<open>
  The inner \<open>try\<close> block of the task in \<open>Server::serve\<close>. \<open>parsed\<close> is the outcome of
  \<open>json::parse(data)\<close>: \<open>Inl\<close> when the bytes are not JSON. The first component lists the
  handlers that were called, the second is the response or the exception that left the
  block. The argument \<open>{}\<close> of \<open>error\<close> is a default-constructed, null \<open>json\<close>.
\<close>

definition route :: "handlers \<Rightarrow> exn + json \<Rightarrow> string list \<times> (exn + json)" where
  "route hs parsed =
     (case parsed of
        Inl e \<Rightarrow> ([], Inl e)
      | Inr request \<Rightarrow>
          (case value_string request ''_cmd'' ''<no _cmd>'' of
             Inl e \<Rightarrow> ([], Inl e)
           | Inr command \<Rightarrow>
               (case map_of hs command of
                  Some h \<Rightarrow>
                    ([command],
                     case h request of Inl e \<Rightarrow> Inl e | Inr response \<Rightarrow> log_outcome response)
                | None \<Rightarrow>
                    ([],
                     case error JNull (''Unknown command: '' @ command) of
                       Inl e \<Rightarrow> Inl e
                     | Inr response \<Rightarrow> log_outcome response))))"

text \<open>
  The task up to the point where \<open>response\<close> is handed to \<open>transport_->send\<close>: the inner
  \<open>try\<close> with its \<open>catch\<close>. \<open>reply\<close> is the value of \<open>response\<close> at that point; \<open>Inl\<close>
  would be an exception leaving the \<open>catch\<close> block.
\<close>

record task_result =
  invoked :: "string list"
  reply :: json

definition serve_task :: "handlers \<Rightarrow> exn + json \<Rightarrow> exn + task_result" where
  "serve_task hs parsed =
     (case route hs parsed of
        (called, Inr resp) \<Rightarrow> Inr \<lparr>invoked = called, reply = resp\<rparr>
      | (called, Inl e) \<Rightarrow>
          (case error JNull (''Invalid JSON or internal error: '' @ what e) of
             Inl e' \<Rightarrow> Inl e'
           | Inr resp \<Rightarrow> Inr \<lparr>invoked = called, reply = resp\<rparr>))"

text \<open>The handler of the first server example of docs/cpp.md.\<close>

definition ping_handler :: Handler where
  "ping_handler req = okay (JObject [(''pong'', JBool True)])"

section \<open>Client (client.hpp, client.cpp)\<close>

text \<open>
  Lines 20 and 21 of \<open>Client::send_request\<close>, on a store of \<open>json\<close> objects in which
  an object is known by its index. \<open>request\<close> is the reference the caller passes: the
  index of the caller's object. \<open>json full_request = request;\<close> constructs a new object
  at a fresh index, as a copy; \<open>full_request["_cmd"] = endpoint;\<close> assigns in the object
  at that index. The result is the index of \<open>full_request\<close>, or the exception of the
  assignment (the local object is then destroyed), with the store after the statements.
\<close>

type_synonym store = "json list"

definition build_request :: "string \<Rightarrow> nat \<Rightarrow> store \<Rightarrow> (exn + nat) \<times> store" where
  "build_request endpoint request h =
     (let full_request = length h;
          h1 = h @ [h ! request]
      in case set_key (h1 ! full_request) ''_cmd'' (JString endpoint) of
           Inl e \<Rightarrow> (Inl e, h)
         | Inr v \<Rightarrow> (Inr full_request, h1[full_request := v]))"

text \<open>Lines 28 to 33: the check of the reply.\<close>

definition check_response :: "json \<Rightarrow> exn + json" where
  "check_response response =
     (case value_bool response ''_success'' False of
        Inl e \<Rightarrow> Inl e
      | Inr success \<Rightarrow>
          if \<not> success
          then (case value_string response ''_msg'' ''Unknown server error.'' of
                  Inl e \<Rightarrow> Inl e
                | Inr msg \<Rightarrow> Inl (runtime_error (''Request failed: '' @ msg)))
          else Inr response)"

text \<open>
  \<open>exchange\<close> stands for lines 24 to 26, \<open>json::parse(transport_->send(full_request.dump()))\<close>:
  serialisation, the socket round trip and parsing, \<open>Inl\<close> when any of the three throws.
  The caller's object is the only cell of the store the call starts from.
\<close>

definition send_request :: "(json \<Rightarrow> exn + json) \<Rightarrow> string \<Rightarrow> json \<Rightarrow> exn + json" where
  "send_request exchange endpoint request =
     (case build_request endpoint 0 [request] of
        (Inl e, h) \<Rightarrow> Inl e
      | (Inr full_request, h) \<Rightarrow>
          (case exchange (h ! full_request) of
             Inl e \<Rightarrow> Inl e
           | Inr response \<Rightarrow> check_response response))"

text \<open>
  The body of the detached thread of \<open>Client::send_request_bg\<close>. \<open>calls\<close> lists the
  arguments of the calls of \<open>callback\<close> in order; \<open>escaped\<close> is the exception that leaves
  the thread function, if any.
\<close>

record bg_run =
  calls :: "json list"
  escaped :: "exn option"

definition failure_envelope :: "exn \<Rightarrow> json" where
  "failure_envelope e =
     JObject (obj_set ''_msg'' (JString (what e)) (obj_set ''_success'' (JBool False) []))"

definition send_request_bg ::
    "(json \<Rightarrow> exn + json) \<Rightarrow> string \<Rightarrow> json \<Rightarrow> (json \<Rightarrow> exn + unit) \<Rightarrow> bg_run" where
  "send_request_bg exchange endpoint request callback =
     (case send_request exchange endpoint request of
        Inr response \<Rightarrow>
          (case callback response of
             Inr u \<Rightarrow> \<lparr>calls = [response], escaped = None\<rparr>
           | Inl e \<Rightarrow>
               \<lparr>calls = [response, failure_envelope e],
                escaped = (case callback (failure_envelope e) of Inl e' \<Rightarrow> Some e' | Inr u \<Rightarrow> None)\<rparr>)
      | Inl e \<Rightarrow>
          \<lparr>calls = [failure_envelope e],
           escaped = (case callback (failure_envelope e) of Inl e' \<Rightarrow> Some e' | Inr u \<Rightarrow> None)\<rparr>)"

text \<open>
  An idealised wire: the server's task runs on the very value the client built, and the
  client receives the very value the task responds with. Serialisation, the 2047-byte
  read and parsing are left out; on the real wire a value can come back in another
  representation (a non-negative \<open>number_integer\<close> as \<open>number_unsigned\<close>) or cut short.
  It is used below only with replies made of strings and booleans.
\<close>

definition loopback :: "handlers \<Rightarrow> json \<Rightarrow> exn + json" where
  "loopback hs full_request =
     (case serve_task hs (Inr full_request) of
        Inl e \<Rightarrow> Inl e
      | Inr r \<Rightarrow> Inr (reply r))"

text \<open>A callback that throws whatever it is given.\<close>

definition throwing_callback :: "json \<Rightarrow> exn + unit" where
  "throwing_callback j = Inl (runtime_error ''callback failed'')"

section \<open>Transports: the server-side \<open>send(data, client_id)\<close> (transport.cpp)\<close>

text \<open>
  \<open>std::stoi(str)\<close>, base 10, as \<open>strtol\<close> reads it: leading white space, an optional
  sign, then digits; anything after the digits is ignored. No digit at all is
  \<open>std::invalid_argument\<close>, a value that does not fit an \<open>int\<close> is \<open>std::out_of_range\<close>.
\<close>

definition isspace :: "char \<Rightarrow> bool" where
  "isspace c = (c = CHR '' '' \<or> c = CHR 0x09 \<or> c = CHR 0x0A \<or> c = CHR 0x0B \<or> c = CHR 0x0C
                \<or> c = CHR 0x0D)"

definition isdigit :: "char \<Rightarrow> bool" where
  "isdigit c = (CHR ''0'' \<le> c \<and> c \<le> CHR ''9'')"

fun digits_value :: "int \<Rightarrow> string \<Rightarrow> int" where
  "digits_value acc [] = acc"
| "digits_value acc (c # cs) = digits_value (acc * 10 + (of_char c - 48)) cs"

definition stoi :: "string \<Rightarrow> exn + int" where
  "stoi str =
     (let s1 = dropWhile isspace str;
          negative = (s1 \<noteq> [] \<and> hd s1 = CHR ''-'');
          s2 = (if s1 \<noteq> [] \<and> (hd s1 = CHR ''-'' \<or> hd s1 = CHR ''+'') then tl s1 else s1);
          ds = takeWhile isdigit s2
      in if ds = [] then Inl (invalid_argument ''stoi'')
         else let v = (if negative then - digits_value 0 ds else digits_value 0 ds)
              in if v < - 2147483648 \<or> 2147483647 < v then Inl (out_of_range ''stoi'')
                 else Inr v)"

text \<open>
  What \<open>std::stoi\<close> accepts, said without the reading loop. A text starts with an
  integer when, after any white space and at most one sign, a digit follows.
  \<open>leading_integer\<close> is the value of the longest run of digits found there, with the
  sign; the text parses as an \<open>int\<close> when that value fits 32 bits.
\<close>

definition starts_with_integer :: "string \<Rightarrow> bool" where
  "starts_with_integer s =
     (\<exists>ws sign d rest. s = ws @ sign @ d # rest \<and> list_all isspace ws
        \<and> sign \<in> {[], ''-'', ''+''} \<and> isdigit d)"

fun after_sign :: "string \<Rightarrow> string" where
  "after_sign [] = []"
| "after_sign (c # cs) = (if c = CHR ''-'' \<or> c = CHR ''+'' then cs else c # cs)"

definition leading_integer :: "string \<Rightarrow> int" where
  "leading_integer s =
     (let s1 = dropWhile isspace s;
          v = digits_value 0 (takeWhile isdigit (after_sign s1))
      in if s1 \<noteq> [] \<and> hd s1 = CHR ''-'' then - v else v)"

definition parses_as_int :: "string \<Rightarrow> bool" where
  "parses_as_int s =
     (starts_with_integer s \<and> - 2147483648 \<le> leading_integer s \<and> leading_integer s \<le> 2147483647)"

text \<open>\<open>s.c_str()\<close> as a C function reads it: the bytes before the first NUL.\<close>

definition c_str :: "string \<Rightarrow> string" where
  "c_str s = takeWhile (\<lambda>c. c \<noteq> CHR 0x00) s"

text \<open>\<open>client_id.find(":")\<close>: the index of the first colon, \<open>None\<close> for \<open>npos\<close>.\<close>

fun find_colon :: "string \<Rightarrow> nat option" where
  "find_colon [] = None"
| "find_colon (c # cs) = (if c = CHR '':'' then Some 0 else map_option Suc (find_colon cs))"

text \<open>
  What a \<open>send\<close> does to the operating system, in order. The results of \<open>write\<close>,
  \<open>close\<close>, \<open>inet_pton\<close> and \<open>sendto\<close> are ignored by all three backends. \<open>Sendto\<close>
  carries the socket, the data, the address text given to \<open>inet_pton\<close> and the port
  after its conversion to the 16 bits of \<open>htons\<close>.
\<close>

datatype syscall =
    Write int string
  | Close int
  | Sendto int string string nat

definition unix_send :: "string \<Rightarrow> string \<Rightarrow> exn + syscall list" where
  "unix_send data client_id =
     (case stoi client_id of
        Inl e \<Rightarrow> Inl e
      | Inr client_fd \<Rightarrow> Inr [Write client_fd data, Close client_fd])"

definition tcp_send :: "string \<Rightarrow> string \<Rightarrow> exn + syscall list" where
  "tcp_send data client_id =
     (case stoi client_id of
        Inl e \<Rightarrow> Inl e
      | Inr client_fd \<Rightarrow> Inr [Write client_fd data, Close client_fd])"

definition udp_send :: "int \<Rightarrow> string \<Rightarrow> string \<Rightarrow> exn + syscall list" where
  "udp_send sock data client_id =
     (case find_colon client_id of
        None \<Rightarrow> Inr []
      | Some delim \<Rightarrow>
          (let ip = take delim client_id in
           case stoi (drop (delim + 1) client_id) of
             Inl e \<Rightarrow> Inl e
           | Inr port \<Rightarrow> Inr [Sendto sock data (c_str ip) (nat (port mod 65536))]))"

section \<open>Server: handing the response to the transport (server.cpp, lines 96 to 100)\<close>






section \<open>Thread pool (threadpool.hpp, threadpool.cpp)\<close>

text \<open>
  The pool as a transition system. Everything a thread does while it holds
  \<open>queue_mutex_\<close> is one step. A task is known by a number; running it appends the
  number to \<open>executed\<close>. A worker is at the \<open>condition_.wait\<close> at the top of its loop
  (\<open>Idle\<close>), holds a task it has popped and not yet called (\<open>Busy\<close>), or has returned
  from \<open>worker()\<close> (\<open>Exited\<close>).
\<close>

datatype worker = Idle | Busy nat | Exited

record pool =
  tasks :: "nat list"
  stop :: bool
  terminate_now :: bool
  workers :: "worker list"
  executed :: "nat list"

definition ThreadPool :: "nat \<Rightarrow> pool" where
  "ThreadPool thread_count =
     \<lparr>tasks = [], stop = False, terminate_now = False,
      workers = replicate thread_count Idle, executed = []\<rparr>"

text \<open>
  The closure built by \<open>wrap_task\<close>: nothing when \<open>should_terminate()\<close>, otherwise the
  task, whose exceptions are swallowed.
\<close>

definition wrap_task :: "nat \<Rightarrow> pool \<Rightarrow> pool" where
  "wrap_task t p = (if terminate_now p then p else p\<lparr>executed := executed p @ [t]\<rparr>)"

text \<open>
  One step of worker \<open>i\<close>. At the wait, the worker goes on only when the predicate
  \<open>terminate_now_ || (!tasks_.empty() && !stop_)\<close> holds; otherwise it stays blocked,
  whether or not it was notified, and the state is unchanged.
\<close>

definition worker_step :: "nat \<Rightarrow> pool \<Rightarrow> pool" where
  "worker_step i p =
     (if length (workers p) \<le> i then p
      else case workers p ! i of
        Exited \<Rightarrow> p
      | Busy t \<Rightarrow> (wrap_task t p)\<lparr>workers := (workers p)[i := Idle]\<rparr>
      | Idle \<Rightarrow>
          if \<not> (terminate_now p \<or> (tasks p \<noteq> [] \<and> \<not> stop p)) then p
          else if terminate_now p then p\<lparr>workers := (workers p)[i := Exited]\<rparr>
          else if stop p \<and> tasks p = [] then p\<lparr>workers := (workers p)[i := Exited]\<rparr>
          else if tasks p \<noteq> []
               then p\<lparr>tasks := tl (tasks p), workers := (workers p)[i := Busy (hd (tasks p))]\<rparr>
               else p)"

text \<open>\<open>enqueue\<close>: the result of the call, and the pool after it.\<close>

definition pool_closed :: exn where
  "pool_closed = runtime_error ''[ThreadPool] Cannot enqueue on stopped or terminated pool.''"

definition enqueue :: "nat \<Rightarrow> pool \<Rightarrow> (exn + unit) \<times> pool" where
  "enqueue task p =
     (if stop p \<or> terminate_now p then (Inl pool_closed, p)
      else (Inr (), p\<lparr>tasks := tasks p @ [task]\<rparr>))"

text \<open>
  \<open>wait()\<close> and \<open>terminate()\<close> set their flag under the lock and then join every worker:
  they return once \<open>joined\<close> holds.
\<close>

definition wait_request :: "pool \<Rightarrow> pool" where
  "wait_request p = p\<lparr>stop := True\<rparr>"

definition terminate_request :: "pool \<Rightarrow> pool" where
  "terminate_request p = p\<lparr>terminate_now := True\<rparr>"

definition joined :: "pool \<Rightarrow> bool" where
  "joined p = list_all (\<lambda>w. w = Exited) (workers p)"

text \<open>Any interleaving of the threads is a list of events, applied from the left.\<close>

datatype event = Worker nat | Enqueue nat | Wait | Terminate

fun apply_event :: "pool \<Rightarrow> event \<Rightarrow> pool" where
  "apply_event p (Worker i) = worker_step i p"
| "apply_event p (Enqueue t) = snd (enqueue t p)"
| "apply_event p Wait = wait_request p"
| "apply_event p Terminate = terminate_request p"

definition run :: "event list \<Rightarrow> pool \<Rightarrow> pool" where
  "run es p = foldl apply_event p es"

text \<open>
  A pool with one worker on which the tasks 1 and 2 have been enqueued and no worker has
  run yet.
\<close>

definition two_queued :: pool where
  "two_queued = snd (enqueue 2 (snd (enqueue 1 (ThreadPool 1))))"

section \<open>Facts about JSON objects\<close>




section \<open>Schema validation: the documented examples\<close>

text \<open>
  The check of a multi-type entry is exact equality of \<open>json_val.type()\<close> with one of
  the listed \<open>value_t\<close>. A \<open>5\<close> held as \<open>number_unsigned\<close> is therefore rejected by
  \<open>types({number_integer, number_float})\<close>; the example server lists
  \<open>number_unsigned\<close> next to \<open>number_integer\<close> for its \<open>"n"\<close>.
\<close>

theorem schema_unsigned_rejected:
  "assert_parameters (JObject [(''n'', JUInt 5)]) n_schema \<noteq> Inr ()"
  by (simp add: assert_parameters_def n_schema_def is_object_def)

text \<open>
  Claim C5, as amended. With the integers held as \<open>number_integer\<close>: \<open>{"n":5}\<close> and
  \<open>{"n":5.2}\<close> validate against \<open>{"n": oneOf(number_integer, number_float)}\<close>;
  \<open>{"n":"5"}\<close> fails with a type mismatch that names the path \<open>n\<close> and lists the
  allowed types; against \<open>{"meta": {"retries": number_integer}}\<close>, \<open>{"meta":1}\<close>
  fails because the value at the nested key is not an object and
  \<open>{"meta":{"retries":3}}\<close> validates. The same \<open>{"n":5}\<close> and
  \<open>{"meta":{"retries":3}}\<close> with the integer held as \<open>number_unsigned\<close> fail with a
  type mismatch.
\<close>

theorem schema_examples:
  "assert_parameters (JObject [(''n'', JInt 5)]) n_schema = Inr ()
   \<and> assert_parameters (JObject [(''n'', JFloat 5.2)]) n_schema = Inr ()
   \<and> assert_parameters (JObject [(''n'', JString ''5'')]) n_schema
       = Inl (runtime_error (''Wrong type for key '' @ [CHR 0x27] @ ''n'' @ [CHR 0x27]
                @ '' (expected one of [number_integer, number_float], got string)''))
   \<and> assert_parameters (JObject [(''meta'', JInt 1)]) meta_schema
       = Inl (runtime_error ''Expected object at key: meta'')
   \<and> assert_parameters (JObject [(''meta'', JObject [(''retries'', JInt 3)])]) meta_schema = Inr ()
   \<and> assert_parameters (JObject [(''n'', JUInt 5)]) n_schema
       = Inl (runtime_error (''Wrong type for key '' @ [CHR 0x27] @ ''n'' @ [CHR 0x27]
                @ '' (expected one of [number_integer, number_float], got number_unsigned)''))
   \<and> assert_parameters (JObject [(''meta'', JObject [(''retries'', JUInt 3)])]) meta_schema
       = Inl (runtime_error (''Wrong type for key '' @ [CHR 0x27] @ ''meta.retries'' @ [CHR 0x27]
                @ '' (expected number_integer, got number_unsigned)''))"
  by (simp add: assert_parameters_def n_schema_def meta_schema_def is_object_def full_path_def)

section \<open>Schema validation ignores keys the schema does not name\<close>








section \<open>Server: malformed requests and unknown commands\<close>










section \<open>Client: the wire request and the background callback\<close>




text \<open>A callback that returns normally is called once, and nothing leaves the thread.\<close>

lemma send_request_bg_once:
  assumes "\<And>j. callback j = Inr ()"
  shows "length (calls (send_request_bg exchange endpoint request callback)) = 1
         \<and> escaped (send_request_bg exchange endpoint request callback) = None"
  using assms by (simp add: send_request_bg_def split: sum.splits)

text \<open>
  Claim C6 (the callback of \<open>send_request_bg\<close> is invoked exactly once, and an error
  it throws is not propagated further) does not hold of the code. The first call of the
  callback is inside the \<open>try\<close> block: when the callback throws on the successful
  response, the \<open>catch\<close> clause calls it a second time, with a failure envelope made
  from the callback's own exception, and an exception of that second call leaves the
  thread function. Here the server answers \<open>ping\<close> successfully and the callback
  throws: it is called twice and its exception escapes.
\<close>

theorem send_request_bg_calls_twice:
  "send_request_bg (loopback [(''ping'', ping_handler)]) ''ping'' (JObject []) throwing_callback
     = \<lparr>calls = [JObject [(''_success'', JBool True), (''pong'', JBool True)],
                 JObject [(''_msg'', JString ''callback failed''), (''_success'', JBool False)]],
        escaped = Some (runtime_error ''callback failed'')\<rparr>"
  by (simp add: send_request_bg_def send_request_def build_request_def check_response_def
      loopback_def serve_task_def route_def ping_handler_def okay_def log_outcome_def
      throwing_callback_def failure_envelope_def)

section \<open>Transports: a client identity that does not parse\<close>

lemma stoi_garbage: "stoi ''garbage'' = Inl (invalid_argument ''stoi'')"
  by (simp add: stoi_def isspace_def isdigit_def)

text \<open>
  The identity \<open>garbage\<close> has no colon and no digits. The UDP backend returns at its
  \<open>npos\<close> guard: no exception and no system call. The Unix-domain backend throws.
\<close>

theorem udp_send_silent_on_garbage:
  "udp_send 3 ''{}'' ''garbage'' = Inr []
   \<and> unix_send ''{}'' ''garbage'' = Inl (invalid_argument ''stoi'')"
  by (simp add: udp_send_def unix_send_def stoi_garbage)

text \<open>What \<open>std::stoi\<close> accepts and returns, in terms of the text.\<close>

lemma isdigit_not_isspace: "isdigit c \<Longrightarrow> \<not> isspace c"
  by (auto simp: isdigit_def isspace_def)

lemma isdigit_not_sign: "isdigit c \<Longrightarrow> c \<noteq> CHR ''-'' \<and> c \<noteq> CHR ''+''"
  by (auto simp: isdigit_def)

lemma sign_not_isspace: "\<not> isspace CHR ''-'' \<and> \<not> isspace CHR ''+''"
  by (simp add: isspace_def)

lemma starts_with_integer_iff:
  "starts_with_integer s
     \<longleftrightarrow> (case after_sign (dropWhile isspace s) of [] \<Rightarrow> False | c # cs \<Rightarrow> isdigit c)"
proof
  assume "starts_with_integer s"
  then obtain ws sign d rest where s: "s = ws @ sign @ d # rest" and ws: "list_all isspace ws"
    and sign: "sign \<in> {[], ''-'', ''+''}" and d: "isdigit d"
    unfolding starts_with_integer_def by blast
  from ws have "dropWhile isspace s = dropWhile isspace (sign @ d # rest)"
    unfolding s by (simp add: dropWhile_append2 list_all_iff)
  also have "\<dots> = sign @ d # rest"
    using sign d isdigit_not_isspace sign_not_isspace by auto
  finally have "after_sign (dropWhile isspace s) = d # rest"
    using sign isdigit_not_sign [OF d] by auto
  with d show "case after_sign (dropWhile isspace s) of [] \<Rightarrow> False | c # cs \<Rightarrow> isdigit c"
    by simp
next
  assume r: "case after_sign (dropWhile isspace s) of [] \<Rightarrow> False | c # cs \<Rightarrow> isdigit c"
  then obtain d rest where a: "after_sign (dropWhile isspace s) = d # rest" and d: "isdigit d"
    by (auto split: list.splits)
  have ws: "list_all isspace (takeWhile isspace s)"
    by (simp add: list_all_iff) (meson set_takeWhileD)
  have s: "s = takeWhile isspace s @ dropWhile isspace s" by simp
  from a obtain sign where "dropWhile isspace s = sign @ d # rest" "sign \<in> {[], ''-'', ''+''}"
    by (cases "dropWhile isspace s") (auto split: if_splits)
  with s have "s = takeWhile isspace s @ sign @ d # rest" by simp
  with ws \<open>sign \<in> {[], ''-'', ''+''}\<close> d show "starts_with_integer s"
    unfolding starts_with_integer_def by blast
qed

lemma stoi_after_sign:
  "(if s1 \<noteq> [] \<and> (hd s1 = CHR ''-'' \<or> hd s1 = CHR ''+'') then tl s1 else s1) = after_sign s1"
  by (cases s1) auto

lemma stoi_eq:
  "stoi s =
     (if \<not> starts_with_integer s then Inl (invalid_argument ''stoi'')
      else if leading_integer s < - 2147483648 \<or> 2147483647 < leading_integer s
           then Inl (out_of_range ''stoi'')
           else Inr (leading_integer s))"
proof -
  have "takeWhile isdigit (after_sign (dropWhile isspace s)) = [] \<longleftrightarrow> \<not> starts_with_integer s"
    unfolding starts_with_integer_iff
    by (cases "after_sign (dropWhile isspace s)") simp_all
  then show ?thesis
    unfolding stoi_def Let_def stoi_after_sign leading_integer_def by auto
qed

lemma stoi_fails_iff: "(\<exists>e. stoi s = Inl e) \<longleftrightarrow> \<not> parses_as_int s"
  unfolding stoi_eq parses_as_int_def by auto

text \<open>
  The value read is that of the digits between the sign and the first character that is
  not a digit.
\<close>

lemma leading_integer_reads:
  assumes "list_all isspace ws" and "sign \<in> {[], ''-'', ''+''}" and "ds \<noteq> []"
    and "list_all isdigit ds" and "rest = [] \<or> \<not> isdigit (hd rest)"
  shows "leading_integer (ws @ sign @ ds @ rest)
           = (if sign = ''-'' then - digits_value 0 ds else digits_value 0 ds)"
proof -
  from assms(3) obtain d ds' where ds: "ds = d # ds'" by (cases ds) auto
  with assms(4) have d: "isdigit d" by simp
  have "dropWhile isspace (ws @ sign @ ds @ rest) = dropWhile isspace (sign @ ds @ rest)"
    using assms(1) by (simp add: dropWhile_append2 list_all_iff)
  also have "\<dots> = sign @ ds @ rest"
    using assms(2) d ds isdigit_not_isspace sign_not_isspace by auto
  finally have 1: "dropWhile isspace (ws @ sign @ ds @ rest) = sign @ ds @ rest" .
  have 2: "after_sign (sign @ ds @ rest) = ds @ rest"
    using assms(2) ds isdigit_not_sign [OF d] by auto
  have "takeWhile isdigit (ds @ rest) = ds @ takeWhile isdigit rest"
    using assms(4) by (simp add: takeWhile_append2 list_all_iff)
  also have "takeWhile isdigit rest = []"
    using assms(5) by (cases rest) auto
  finally have 3: "takeWhile isdigit (ds @ rest) = ds" by simp
  have 4: "(sign @ ds @ rest \<noteq> [] \<and> hd (sign @ ds @ rest) = CHR ''-'') \<longleftrightarrow> sign = ''-''"
    using assms(2) ds isdigit_not_sign [OF d] by auto
  show ?thesis
    unfolding leading_integer_def Let_def 1 2 3 4 by simp
qed

lemma not_starts_garbage: "\<not> starts_with_integer ''garbage''"
  by (simp add: starts_with_integer_iff isspace_def isdigit_def)

lemma starts_big: "starts_with_integer ''99999999999''"
  by (simp add: starts_with_integer_iff isspace_def isdigit_def)

lemma not_parses_big: "\<not> parses_as_int ''99999999999''"
  by (simp add: parses_as_int_def leading_integer_def isspace_def isdigit_def)

lemma udp_send_big: "udp_send 3 ''{}'' ''1.2.3.4:99999999999'' = Inl (out_of_range ''stoi'')"
  by (simp add: udp_send_def stoi_def isspace_def isdigit_def)

lemma unix_send_garbage: "unix_send ''{}'' ''garbage'' = Inl (invalid_argument ''stoi'')"
  by (simp add: unix_send_def stoi_def isspace_def isdigit_def)

lemma tcp_send_garbage: "tcp_send ''{}'' ''garbage'' = Inl (invalid_argument ''stoi'')"
  by (simp add: tcp_send_def stoi_def isspace_def isdigit_def)

text \<open>
  Claim C7, as amended. The three backends do not treat an unparsable identity alike.
  The Unix-domain and TCP backends fail, with the exception of \<open>std::stoi\<close>, exactly
  when the identity does not parse as an \<open>int\<close>: it does not start with an integer
  (\<open>std::invalid_argument\<close>), or the integer does not fit. The UDP backend silently does
  nothing when the identity has no colon; when it has one, it fails exactly when the
  text after the first colon does not parse as an \<open>int\<close>.
\<close>

theorem send_unparsable_identity:
  "((\<exists>e. unix_send data client_id = Inl e) \<longleftrightarrow> \<not> parses_as_int client_id)
   \<and> ((\<exists>e. tcp_send data client_id = Inl e) \<longleftrightarrow> \<not> parses_as_int client_id)
   \<and> (\<not> starts_with_integer client_id \<longrightarrow>
         unix_send data client_id = Inl (invalid_argument ''stoi'')
         \<and> tcp_send data client_id = Inl (invalid_argument ''stoi''))
   \<and> (find_colon client_id = None \<longrightarrow> udp_send sock data client_id = Inr [])
   \<and> (find_colon udp_id = Some delim \<longrightarrow>
         ((\<exists>e. udp_send sock data udp_id = Inl e) \<longleftrightarrow> \<not> parses_as_int (drop (delim + 1) udp_id)))"
proof -
  have u: "(\<exists>e. unix_send data client_id = Inl e) \<longleftrightarrow> \<not> parses_as_int client_id"
    unfolding stoi_fails_iff [symmetric] by (auto simp: unix_send_def split: sum.splits)
  have t: "(\<exists>e. tcp_send data client_id = Inl e) \<longleftrightarrow> \<not> parses_as_int client_id"
    unfolding stoi_fails_iff [symmetric] by (auto simp: tcp_send_def split: sum.splits)
  have i: "\<not> starts_with_integer client_id \<longrightarrow>
         unix_send data client_id = Inl (invalid_argument ''stoi'')
         \<and> tcp_send data client_id = Inl (invalid_argument ''stoi'')"
    by (simp add: unix_send_def tcp_send_def stoi_eq)
  have n: "find_colon client_id = None \<longrightarrow> udp_send sock data client_id = Inr []"
    by (simp add: udp_send_def)
  have c: "find_colon udp_id = Some delim \<longrightarrow>
         ((\<exists>e. udp_send sock data udp_id = Inl e) \<longleftrightarrow> \<not> parses_as_int (drop (delim + 1) udp_id))"
    unfolding stoi_fails_iff [symmetric] by (auto simp: udp_send_def split: sum.splits)
  from u t i n c show ?thesis by blast
qed

theorem send_unparsable_identity_witness:
  "\<not> starts_with_integer ''garbage''
   \<and> unix_send ''{}'' ''garbage'' = Inl (invalid_argument ''stoi'')
   \<and> tcp_send ''{}'' ''garbage'' = Inl (invalid_argument ''stoi'')
   \<and> find_colon ''garbage'' = None
   \<and> udp_send 3 ''{}'' ''garbage'' = Inr []
   \<and> find_colon ''1.2.3.4:99999999999'' = Some 7
   \<and> starts_with_integer ''99999999999''
   \<and> \<not> parses_as_int (drop (7 + 1) ''1.2.3.4:99999999999'')
   \<and> udp_send 3 ''{}'' ''1.2.3.4:99999999999'' = Inl (out_of_range ''stoi'')"
  using send_unparsable_identity [of "''{}''" "''garbage''" 3 "''1.2.3.4:99999999999''" 7]
  by (simp add: not_starts_garbage not_parses_big starts_big udp_send_big unix_send_garbage
      tcp_send_garbage)

section \<open>Thread pool: shutdown\<close>

lemma worker_step_flags:
  "stop (worker_step i p) = stop p \<and> terminate_now (worker_step i p) = terminate_now p
   \<and> length (workers (worker_step i p)) = length (workers p)"
  by (simp add: worker_step_def wrap_task_def split: worker.splits)

lemma worker_step_tasks: "set (tasks (worker_step i p)) \<subseteq> set (tasks p)"
  by (auto simp: worker_step_def wrap_task_def split: worker.splits dest: list.set_sel(2))

text \<open>Once a flag is set, no event clears it and no event adds to the queue.\<close>

lemma apply_event_closed:
  assumes "stop p \<or> terminate_now p"
  shows "(stop (apply_event p ev) \<or> terminate_now (apply_event p ev))
         \<and> set (tasks (apply_event p ev)) \<subseteq> set (tasks p)"
proof (cases ev)
  case (Worker i)
  with assms show ?thesis by (simp add: worker_step_flags worker_step_tasks)
next
  case (Enqueue t)
  with assms show ?thesis by (auto simp: enqueue_def)
next
  case Wait
  with assms show ?thesis by (auto simp: wait_request_def)
next
  case Terminate
  with assms show ?thesis by (auto simp: terminate_request_def)
qed

lemma run_closed:
  "stop p \<or> terminate_now p \<Longrightarrow>
   (stop (run es p) \<or> terminate_now (run es p)) \<and> set (tasks (run es p)) \<subseteq> set (tasks p)"
  unfolding run_def
proof (induction es arbitrary: p)
  case Nil
  then show ?case by simp
next
  case (Cons ev es)
  from apply_event_closed [OF Cons.prems, of ev]
  have 1: "stop (apply_event p ev) \<or> terminate_now (apply_event p ev)"
    and 2: "set (tasks (apply_event p ev)) \<subseteq> set (tasks p)" by simp_all
  from Cons.IH [OF 1] 2 show ?case by auto
qed

text \<open>
  Claim C2. On every pool on which \<open>wait()\<close> or \<open>terminate()\<close> has been requested,
  and after any further events of any thread, \<open>enqueue\<close> fails with the pool-closed
  error and leaves the pool as it was; the queue never holds a task that was not in it
  when the shutdown was requested.
\<close>

theorem enqueue_after_shutdown_fails:
  "enqueue t (run es (wait_request p)) = (Inl pool_closed, run es (wait_request p))
   \<and> set (tasks (run es (wait_request p))) \<subseteq> set (tasks p)
   \<and> enqueue t (run es (terminate_request p)) = (Inl pool_closed, run es (terminate_request p))
   \<and> set (tasks (run es (terminate_request p))) \<subseteq> set (tasks p)"
proof -
  have "stop (wait_request p) \<or> terminate_now (wait_request p)"
    by (simp add: wait_request_def)
  from run_closed [OF this, of es]
  have w: "stop (run es (wait_request p)) \<or> terminate_now (run es (wait_request p))"
    and wt: "set (tasks (run es (wait_request p))) \<subseteq> set (tasks p)"
    by (simp_all add: wait_request_def)
  have "stop (terminate_request p) \<or> terminate_now (terminate_request p)"
    by (simp add: terminate_request_def)
  from run_closed [OF this, of es]
  have t: "stop (run es (terminate_request p)) \<or> terminate_now (run es (terminate_request p))"
    and tt: "set (tasks (run es (terminate_request p))) \<subseteq> set (tasks p)"
    by (simp_all add: terminate_request_def)
  from w wt t tt show ?thesis by (simp add: enqueue_def)
qed

text \<open>
  With \<open>stop_\<close> set and \<open>terminate_now_\<close> clear the wait predicate is false: an idle
  worker stays where it is.
\<close>

lemma worker_step_blocked:
  assumes "stop p" and "\<not> terminate_now p" and "list_all (\<lambda>w. w = Idle) (workers p)"
  shows "worker_step i p = p"
  using assms by (auto simp: worker_step_def list_all_length split: worker.splits)

lemma run_workers_blocked:
  assumes "stop p" and "\<not> terminate_now p" and "list_all (\<lambda>w. w = Idle) (workers p)"
  shows "run (map Worker sched) p = p"
  unfolding run_def using assms
  by (induction sched) (simp_all add: worker_step_blocked)

text \<open>Unless \<open>terminate()\<close> is called, no worker ever returns from \<open>worker()\<close>.\<close>

lemma worker_step_no_exit:
  assumes "\<not> terminate_now p" and "j < length (workers p)" and "workers p ! j \<noteq> Exited"
  shows "workers (worker_step i p) ! j \<noteq> Exited"
  using assms
  by (auto simp: worker_step_def wrap_task_def nth_list_update split: worker.splits)

lemma run_workers_no_exit:
  assumes "\<not> terminate_now p" and "j < length (workers p)" and "workers p ! j \<noteq> Exited"
  shows "\<not> terminate_now (run (map Worker sched) p)
         \<and> j < length (workers (run (map Worker sched) p))
         \<and> workers (run (map Worker sched) p) ! j \<noteq> Exited"
  unfolding run_def using assms
proof (induction sched arbitrary: p)
  case Nil
  then show ?case by simp
next
  case (Cons i sched)
  have "\<not> terminate_now (worker_step i p)" "j < length (workers (worker_step i p))"
    using Cons.prems by (simp_all add: worker_step_flags)
  moreover have "workers (worker_step i p) ! j \<noteq> Exited"
    using Cons.prems by (rule worker_step_no_exit)
  ultimately show ?case using Cons.IH [of "worker_step i p"] by simp
qed

lemma not_joined: "j < length (workers p) \<Longrightarrow> workers p ! j \<noteq> Exited \<Longrightarrow> \<not> joined p"
  by (auto simp: joined_def list_all_length)

lemma two_queued_eq:
  "two_queued
     = \<lparr>tasks = [1, 2], stop = False, terminate_now = False, workers = [Idle], executed = []\<rparr>"
  by (simp add: two_queued_def enqueue_def ThreadPool_def)

text \<open>
  Claim C1 (after \<open>wait()\<close> sets the graceful-stop flag the workers drain the queue,
  and every task enqueued before has run exactly once when \<open>wait()\<close> returns) does not
  hold of the code. A pool with one worker accepts the tasks 1 and 2, and \<open>wait()\<close>
  sets \<open>stop_\<close> before the worker has popped either. From then on, under every schedule
  of the worker, both tasks stay in the queue, nothing is executed, and the worker has
  not exited, so the \<open>join\<close> in \<open>wait()\<close> does not return: the queue is not drained.
  Whatever the worker did before \<open>wait()\<close> set the flag, it never exits afterwards, so
  \<open>wait()\<close> returns under no schedule.
\<close>

theorem wait_never_drains:
  "enqueue 1 (ThreadPool 1) = (Inr (), snd (enqueue 1 (ThreadPool 1)))
   \<and> enqueue 2 (snd (enqueue 1 (ThreadPool 1))) = (Inr (), two_queued)
   \<and> (\<forall>sched. tasks (run (map Worker sched) (wait_request two_queued)) = [1, 2]
             \<and> executed (run (map Worker sched) (wait_request two_queued)) = []
             \<and> \<not> joined (run (map Worker sched) (wait_request two_queued)))
   \<and> (\<forall>before after.
         \<not> joined (run (map Worker after) (wait_request (run (map Worker before) two_queued))))"
proof -
  have e: "enqueue 1 (ThreadPool 1) = (Inr (), snd (enqueue 1 (ThreadPool 1)))
         \<and> enqueue 2 (snd (enqueue 1 (ThreadPool 1))) = (Inr (), two_queued)"
    by (simp add: two_queued_def enqueue_def ThreadPool_def)
  have blocked: "run (map Worker sched) (wait_request two_queued) = wait_request two_queued"
    for sched
    by (rule run_workers_blocked) (simp_all add: two_queued_eq wait_request_def)
  have 1: "tasks (run (map Worker sched) (wait_request two_queued)) = [1, 2]
             \<and> executed (run (map Worker sched) (wait_request two_queued)) = []
             \<and> \<not> joined (run (map Worker sched) (wait_request two_queued))" for sched
    unfolding blocked by (simp add: two_queued_eq wait_request_def joined_def)
  have 2: "\<not> joined (run (map Worker after) (wait_request (run (map Worker before) two_queued)))"
    for before after
  proof -
    let ?p = "run (map Worker before) two_queued"
    have a: "\<not> terminate_now ?p \<and> 0 < length (workers ?p) \<and> workers ?p ! 0 \<noteq> Exited"
      by (rule run_workers_no_exit) (simp_all add: two_queued_eq)
    then have b: "\<not> terminate_now (wait_request ?p)" "0 < length (workers (wait_request ?p))"
      "workers (wait_request ?p) ! 0 \<noteq> Exited"
      by (simp_all add: wait_request_def)
    from run_workers_no_exit [OF b, of after] show ?thesis
      using not_joined by blast
  qed
  from e 1 2 show ?thesis by blast
qed

end
